theory Spec2Isabelle
  imports Complex_Main
begin

section \<open>Linear CorEx: a shallow embedding of \<open>linear_corex.py\<close>\<close>

text \<open>
  The estimator works on dense numpy arrays of doubles. The embedding idealises a double
  as a \<^typ>\<open>real\<close>: rounding, overflow, \<open>inf\<close> and \<open>nan\<close> have no counterpart. Where
  numpy would produce \<open>inf\<close> or \<open>nan\<close> (division by zero, logarithm of a non-positive
  number) HOL's total \<open>/\<close> and \<open>ln\<close> return some real; statements that depend on
  such a value carry the hypothesis that excludes it.

  A 1-d array is a list, a 2-d array the list of its rows. numpy raises on operands whose
  shapes do not fit; the list operations below are only meant for operands of the shapes
  the code produces, and the statements say which shapes they assume (\<open>has_shape\<close>).
  A list of rows without rows does not know its number of columns, so the statements are
  about arrays with at least one row and one column.
\<close>

type_synonym vec = "real list"
type_synonym mat = "real list list"

datatype error =
  LinAlgError | KeyError | UnboundLocalError | AssertionError | TypeError | ValueError | IndexError

subsection \<open>Array operations of numpy\<close>

definition has_shape :: "nat \<Rightarrow> nat \<Rightarrow> mat \<Rightarrow> bool" where
  "has_shape r c A \<longleftrightarrow> length A = r \<and> list_all (\<lambda>v. length v = c) A"

definition ncols :: "mat \<Rightarrow> nat" where
  "ncols A = (case A of [] \<Rightarrow> 0 | v # _ \<Rightarrow> length v)"

definition col :: "mat \<Rightarrow> nat \<Rightarrow> vec" where
  "col A j = map (\<lambda>v. v ! j) A"

text \<open>\<open>A.T\<close>\<close>
definition arrT :: "mat \<Rightarrow> mat" where
  "arrT A = map (col A) [0..<ncols A]"

definition dotv :: "vec \<Rightarrow> vec \<Rightarrow> real" where
  "dotv u v = sum_list (map2 (*) u v)"

text \<open>\<open>A.dot(B)\<close>, \<open>np.dot(A, B)\<close> on 2-d arrays\<close>
definition dot :: "mat \<Rightarrow> mat \<Rightarrow> mat" where
  "dot A B = map (\<lambda>u. map (\<lambda>j. dotv u (col B j)) [0..<ncols B]) A"

text \<open>\<open>np.eye(k)\<close>\<close>
definition eye :: "nat \<Rightarrow> mat" where
  "eye k = map (\<lambda>r. map (\<lambda>s. if r = s then 1 else 0) [0..<k]) [0..<k]"

text \<open>\<open>np.diag(A)\<close> of a square 2-d array\<close>
definition diag :: "mat \<Rightarrow> vec" where
  "diag A = map (\<lambda>j. A ! j ! j) [0..<length A]"

text \<open>\<open>np.fill_diagonal(A, c)\<close>\<close>
definition fill_diagonal :: "mat \<Rightarrow> real \<Rightarrow> mat" where
  "fill_diagonal A c = map (\<lambda>r. (A ! r)[r := c]) [0..<length A]"

text \<open>scalar \<open>*\<close> array, and the elementwise \<open>+\<close>, \<open>-\<close>, \<open>/\<close>, \<open>** 2\<close> of two arrays of one shape\<close>
definition scal :: "real \<Rightarrow> mat \<Rightarrow> mat" where
  "scal c A = map (map ((*) c)) A"

definition madd :: "mat \<Rightarrow> mat \<Rightarrow> mat" where
  "madd A B = map2 (map2 (+)) A B"

definition msub :: "mat \<Rightarrow> mat \<Rightarrow> mat" where
  "msub A B = map2 (map2 (-)) A B"

definition mdiv :: "mat \<Rightarrow> mat \<Rightarrow> mat" where
  "mdiv A B = map2 (map2 (/)) A B"

definition msq :: "mat \<Rightarrow> mat" where
  "msq A = map (map (\<lambda>a. a ^ 2)) A"

text \<open>
  Broadcasting a 1-d array of length \<open>c\<close> against an \<open>r\<close> by \<open>c\<close> array: the vector meets
  every row. \<open>v * A\<close>, \<open>A / v\<close> and \<open>A - v\<close>.
\<close>
definition rows_times :: "vec \<Rightarrow> mat \<Rightarrow> mat" where
  "rows_times v A = map (\<lambda>r. map2 (*) v r) A"

definition rows_div :: "mat \<Rightarrow> vec \<Rightarrow> mat" where
  "rows_div A v = map (\<lambda>r. map2 (/) r v) A"

definition sub_rows :: "mat \<Rightarrow> vec \<Rightarrow> mat" where
  "sub_rows x mu = map (\<lambda>r. map2 (-) r mu) x"

text \<open>\<open>v * y[:, np.newaxis]\<close>: entry \<open>[j, i]\<close> is \<open>v[i] * y[j]\<close>\<close>
definition outer_newaxis :: "vec \<Rightarrow> vec \<Rightarrow> mat" where
  "outer_newaxis v y = map (\<lambda>b. map (\<lambda>a. a * b) v) y"

definition one_minus :: "vec \<Rightarrow> vec" where
  "one_minus v = map (\<lambda>a. 1 - a) v"

text \<open>The four \<open>np.einsum\<close> contractions of the source, named by their subscripts.\<close>
definition einsum_li_li_i :: "mat \<Rightarrow> mat \<Rightarrow> vec" where
  "einsum_li_li_i A B = map (\<lambda>i. dotv (col A i) (col B i)) [0..<ncols A]"

definition einsum_ij_ij_i :: "mat \<Rightarrow> mat \<Rightarrow> vec" where
  "einsum_ij_ij_i A B = map2 dotv A B"

definition einsum_ji_ij_i :: "mat \<Rightarrow> mat \<Rightarrow> vec" where
  "einsum_ji_ij_i A B = map (\<lambda>i. dotv (col A i) (B ! i)) [0..<length B]"

definition einsum_ir_i_is_i_rs :: "mat \<Rightarrow> vec \<Rightarrow> mat \<Rightarrow> vec \<Rightarrow> mat" where
  "einsum_ir_i_is_i_rs A u B w =
     map (\<lambda>r. map (\<lambda>s. (\<Sum>i\<leftarrow>[0..<length A]. A ! i ! r * u ! i * B ! i ! s * w ! i)) [0..<ncols B])
       [0..<ncols A]"

text \<open>\<open>scipy.special.expit\<close>\<close>
definition expit :: "real \<Rightarrow> real" where
  "expit t = 1 / (1 + exp (- t))"

text \<open>
  \<open>np.argsort\<close>: the indices that sort the array in ascending order. Equal keys keep their
  index order here (numpy's default sort does not promise an order for them).
\<close>
definition argsort :: "vec \<Rightarrow> nat list" where
  "argsort v = sort_key (\<lambda>j. v ! j) [0..<length v]"

text \<open>\<open>scipy.stats.rankdata\<close> with its default method: ties share the average rank.\<close>
definition rankdata :: "vec \<Rightarrow> vec" where
  "rankdata v =
     map (\<lambda>a. real (length (filter (\<lambda>b. b < a) v))
               + (real (length (filter (\<lambda>b. b = a) v)) + 1) / 2) v"

subsection \<open>\<open>np.linalg.solve\<close>\<close>

text \<open>
  LAPACK's solver is Gaussian elimination with row exchanges on the system and all
  right-hand sides at once; it raises \<open>LinAlgError\<close> when a column has no pivot. In exact
  arithmetic the choice among the non-zero pivots does not change the solution; the first
  one is taken here. An equation is the pair of its coefficients and its right-hand sides.
\<close>

fun find_pivot :: "(vec \<times> vec) list \<Rightarrow> ((vec \<times> vec) \<times> (vec \<times> vec) list) option" where
  "find_pivot [] = None"
| "find_pivot (e # es) =
     (if hd (fst e) \<noteq> 0 then Some (e, es)
      else (case find_pivot es of None \<Rightarrow> None | Some (p, rest) \<Rightarrow> Some (p, e # rest)))"

definition eliminate :: "vec \<times> vec \<Rightarrow> vec \<times> vec \<Rightarrow> vec \<times> vec" where
  "eliminate p e =
     (let f = hd (fst e) / hd (fst p)
      in (map2 (\<lambda>c a. c - f * a) (tl (fst e)) (tl (fst p)),
          map2 (\<lambda>d b. d - f * b) (snd e) (snd p)))"

definition back_subst :: "vec \<times> vec \<Rightarrow> mat \<Rightarrow> vec" where
  "back_subst p X =
     map (\<lambda>t. (snd p ! t - dotv (tl (fst p)) (col X t)) / hd (fst p)) [0..<length (snd p)]"

fun solve_eqs :: "nat \<Rightarrow> (vec \<times> vec) list \<Rightarrow> mat option" where
  "solve_eqs 0 es = Some []"
| "solve_eqs (Suc n) es =
     (case find_pivot es of
        None \<Rightarrow> None
      | Some (p, rest) \<Rightarrow>
          (case solve_eqs n (map (eliminate p) rest) of
             None \<Rightarrow> None
           | Some X \<Rightarrow> Some (back_subst p X # X)))"

definition solve :: "mat \<Rightarrow> mat \<Rightarrow> error + mat" where
  "solve A B =
     (case solve_eqs (length A) (zip A B) of None \<Rightarrow> Inl LinAlgError | Some X \<Rightarrow> Inr X)"

subsection \<open>The instance\<close>

text \<open>
  The moments dictionary is only ever \<open>{}\<close> (after \<open>__init__\<close>) or the six-key dictionary
  that \<open>_calculate_moments\<close> returns: \<open>None\<close> is the empty dictionary, and the fields are
  the keys \<open>"X_i^2"\<close>, \<open>"X_i Y_j"\<close>, \<open>"cy"\<close>, \<open>"X_i Z_j"\<close>, \<open>"X_i^2 | Y"\<close>, \<open>"Y_j^2"\<close>.
\<close>

record moments =
  Xi2 :: vec
  XiYj :: mat
  cy :: mat
  XiZj :: mat
  Xi2_given_Y :: vec
  Yj2 :: vec

text \<open>\<open>self.lam\<close> is the scalar \<open>lam_init\<close> until \<open>fit\<close> makes it an array.\<close>
datatype lamval = Scalar real | Arr vec

text \<open>The attributes of a \<open>Corex\<close> object; \<open>n_hidden\<close> is \<open>self.m\<close>.\<close>
record corex =
  n_hidden :: nat
  max_iter :: nat
  noise :: real
  tol :: real
  gaussianize_marginals :: bool
  verbose :: bool
  copy :: bool
  nv :: nat
  ws :: mat
  additive :: bool
  lam :: lamval
  moments :: "moments option"
  mean_x :: "vec option"
  tc_history :: "real list"
  n_samples :: nat
  n_loops :: "nat option"

text \<open>
  What the code takes from numpy and scipy without computing it itself: the draw of
  \<open>np.random.randn(m, nv)\<close>, the eigendecomposition \<open>np.linalg.eigh\<close> (eigenvalues and
  eigenvectors) and the normal quantile function \<open>norm.ppf\<close>.
\<close>
record library =
  randn :: "nat \<Rightarrow> nat \<Rightarrow> mat"
  eigh :: "mat \<Rightarrow> vec \<times> mat"
  norm_ppf :: "real \<Rightarrow> real"

text \<open>\<open>Corex.__init__\<close> (printing left out)\<close>
definition corex_init ::
  "nat \<Rightarrow> nat \<Rightarrow> real \<Rightarrow> real \<Rightarrow> real \<Rightarrow> bool \<Rightarrow> bool \<Rightarrow> bool \<Rightarrow> bool \<Rightarrow> corex" where
  "corex_init nh mi nz tolv lam_init add gm vb cp =
     \<lparr>n_hidden = nh, max_iter = mi, noise = nz, tol = tolv, gaussianize_marginals = gm,
      verbose = vb, copy = cp, nv = 0, ws = replicate nh [], additive = add,
      lam = Scalar lam_init, moments = None, mean_x = None, tc_history = [0],
      n_samples = 0, n_loops = None\<rparr>"

subsection \<open>Derived statistics\<close>

definition calculate_mi :: "moments \<Rightarrow> mat" where
  "calculate_mi mo =
     arrT (scal (- 0.5)
       (map (map (\<lambda>q. ln (1 - q)))
          (mdiv (msq (XiYj mo)) (outer_newaxis (Yj2 mo) (Xi2 mo)))))"

definition mis :: "corex \<Rightarrow> error + mat" where
  "mis st = (case moments st of None \<Rightarrow> Inl KeyError | Some mo \<Rightarrow> Inr (calculate_mi mo))"

definition tcs :: "corex \<Rightarrow> error + vec" where
  "tcs st =
     (case moments st of
        None \<Rightarrow> Inl KeyError
      | Some mo \<Rightarrow>
          (let mi_yj_x = map (\<lambda>y. 0.5 * ln y - 0.5 * ln ((noise st) ^ 2)) (Yj2 mo)
           in Inr (map2 (-) (map sum_list (calculate_mi mo)) mi_yj_x)))"

definition tc :: "corex \<Rightarrow> error + real" where
  "tc st = (case tcs st of Inl e \<Rightarrow> Inl e | Inr v \<Rightarrow> Inr (sum_list v))"

definition additivity :: "corex \<Rightarrow> error + vec" where
  "additivity st =
     (case moments st of
        None \<Rightarrow> Inl KeyError
      | Some mo \<Rightarrow>
          (let mi_xi_y = map2 (\<lambda>v r. 0.5 * ln v - 0.5 * ln r) (Xi2 mo) (Xi2_given_Y mo);
               M = calculate_mi mo
           in Inr (map2 (-) (map (\<lambda>i. sum_list (col M i)) [0..<ncols M]) mi_xi_y)))"

definition objective :: "corex \<Rightarrow> error + real" where
  "objective st =
     (case tc st of
        Inl e \<Rightarrow> Inl e
      | Inr t \<Rightarrow> (case additivity st of Inl e \<Rightarrow> Inl e | Inr a \<Rightarrow> Inr (t - sum_list a)))"

subsection \<open>\<open>_calculate_moments\<close>\<close>

text \<open>\<open>np.einsum('li,li->i', x, x) / n\<close>\<close>
definition variance :: "mat \<Rightarrow> nat \<Rightarrow> vec" where
  "variance x n = map (\<lambda>v. v / real n) (einsum_li_li_i x x)"

text \<open>\<open>m["X_i Y_j"]\<close>, with \<open>y = x.dot(self.ws.T)\<close>\<close>
definition cross_moment :: "corex \<Rightarrow> mat \<Rightarrow> mat" where
  "cross_moment st x =
     (let y = dot x (arrT (ws st))
      in map (map (\<lambda>v. v / real (length y))) (dot (arrT x) y))"

text \<open>\<open>m["cy"]\<close>\<close>
definition latent_cov :: "corex \<Rightarrow> mat \<Rightarrow> mat" where
  "latent_cov st x =
     madd (dot (ws st) (cross_moment st x)) (scal ((noise st) ^ 2) (eye (n_hidden st)))"

definition calculate_moments :: "corex \<Rightarrow> mat \<Rightarrow> error + moments" where
  "calculate_moments st x =
     (let var_x = (case moments st of
                     Some mo \<Rightarrow> Xi2 mo
                   | None \<Rightarrow> variance x (length x));
          C = cross_moment st x;
          cov = latent_cov st x
      in case solve cov (arrT C) of
           Inl e \<Rightarrow> Inl e
         | Inr Z \<Rightarrow>
             Inr \<lparr>Xi2 = var_x, XiYj = C, cy = cov, XiZj = arrT Z,
                  Xi2_given_Y = map2 (-) var_x (einsum_ij_ij_i (arrT Z) C),
                  Yj2 = diag cov\<rparr>)"

subsection \<open>\<open>_update_ws\<close>\<close>

definition Q_of :: "moments \<Rightarrow> mat" where
  "Q_of mo =
     mdiv (arrT (XiYj mo)) (msub (outer_newaxis (Xi2 mo) (Yj2 mo)) (arrT (msq (XiYj mo))))"

definition R_of :: "moments \<Rightarrow> mat" where
  "R_of mo = rows_div (arrT (XiZj mo)) (Xi2_given_Y mo)"

text \<open>
  The new multipliers when \<open>self.additive\<close> holds. \<open>np.where\<close> computes both alternatives
  for every entry and keeps one.
\<close>
definition lam_additive :: "corex \<Rightarrow> moments \<Rightarrow> error + vec" where
  "lam_additive st mo =
     (let ai = einsum_ji_ij_i (msub (scal ((noise st) ^ 2) (Q_of mo)) (ws st)) (XiYj mo);
          bi = einsum_ji_ij_i (msub (scal ((noise st) ^ 2) (R_of mo)) (ws st)) (XiYj mo)
      in case additivity st of
           Inl e \<Rightarrow> Inl e
         | Inr a \<Rightarrow>
             Inr (map2 (\<lambda>c t. if c < 0 then t else 0) a
                    (map2 (\<lambda>b a'. expit (0.5 * ln \<bar>b / a'\<bar>)) bi ai)))"

definition H_of :: "moments \<Rightarrow> vec \<Rightarrow> mat" where
  "H_of mo lv =
     fill_diagonal
       (einsum_ir_i_is_i_rs (XiZj mo) (map (\<lambda>r. 1 / r) (Xi2_given_Y mo)) (XiZj mo) (one_minus lv)) 0"

text \<open>
  \<open>einsum\<close> rejects a scalar for the subscript \<open>i\<close>, so a \<open>self.lam\<close> that is still the
  scalar of \<open>__init__\<close> ends in \<open>ValueError\<close>.
\<close>
definition update_ws :: "corex \<Rightarrow> error + corex" where
  "update_ws st =
     (case moments st of
        None \<Rightarrow> Inl KeyError
      | Some mo \<Rightarrow>
          (case (if additive st
                 then (case lam_additive st mo of Inl e \<Rightarrow> Inl e | Inr lv \<Rightarrow> Inr (Arr lv))
                 else Inr (lam st)) of
             Inl e \<Rightarrow> Inl e
           | Inr (Scalar c) \<Rightarrow> Inl ValueError
           | Inr (Arr lv) \<Rightarrow>
               (let S = dot (H_of mo lv) (ws st)
                in Inr (st\<lparr>lam := Arr lv,
                         ws := scal 0.5 (madd (ws st)
                                 (scal ((noise st) ^ 2)
                                    (msub (madd (rows_times lv (Q_of mo))
                                                (rows_times (one_minus lv) (R_of mo))) S)))\<rparr>))))"

subsection \<open>\<open>gaussianize\<close> and \<open>_sym_decorrelation\<close>\<close>

text \<open>The 2-d branch of \<open>gaussianize\<close>; \<open>fit\<close> and \<open>transform\<close> only pass 2-d arrays.\<close>
definition gaussianize :: "library \<Rightarrow> mat \<Rightarrow> mat" where
  "gaussianize L x =
     arrT (map (\<lambda>x_i. map (\<lambda>r. norm_ppf L ((r - 0.5) / real (length x_i))) (rankdata x_i))
             (arrT x))"

definition sym_decorrelation :: "library \<Rightarrow> mat \<Rightarrow> mat" where
  "sym_decorrelation L W =
     (case eigh L (dot W (arrT W)) of
        (s, u) \<Rightarrow> dot (dot (rows_times (map (\<lambda>e. 1 / sqrt e) s) u) (arrT u)) W)"

subsection \<open>\<open>fit\<close>\<close>

text \<open>\<open>self.lam * np.ones(self.nv)\<close>, with numpy's broadcasting of two 1-d arrays\<close>
definition lam_times_ones :: "lamval \<Rightarrow> nat \<Rightarrow> error + vec" where
  "lam_times_ones l d =
     (case l of
        Scalar c \<Rightarrow> Inr (replicate d c)
      | Arr v \<Rightarrow>
          (if length v = d then Inr v
           else if length v = 1 then Inr (replicate d (v ! 0))
           else if d = 1 then Inr v
           else Inl ValueError))"

text \<open>
  Lines 113 to 123: the instance as the loop finds it, and the preprocessed data. What the
  in-place subtraction does to the caller's array when \<open>copy\<close> is off is only followed
  in \<open>transform\<close> below.
\<close>
definition fit_prepare :: "library \<Rightarrow> corex \<Rightarrow> mat \<Rightarrow> error + (corex \<times> mat)" where
  "fit_prepare L st x0 =
     (let n = length x0; d = ncols x0;
          st1 = st\<lparr>n_samples := n, nv := d\<rparr>;
          mu = map (\<lambda>i. sum_list (col x0 i) / real n) [0..<d];
          st2 = (if gaussianize_marginals st1 then st1 else st1\<lparr>mean_x := Some mu\<rparr>);
          x = (if gaussianize_marginals st1 then gaussianize L x0 else sub_rows x0 mu);
          var_x = variance x n;
          W0 = rows_div (scal ((noise st2) ^ 2) (sym_decorrelation L (randn L (n_hidden st2) d)))
                 (map sqrt var_x)
      in case lam_times_ones (lam st2) d of
           Inl e \<Rightarrow> Inl e
         | Inr lv \<Rightarrow> Inr (st2\<lparr>ws := W0, lam := Arr lv\<rparr>, x))"

text \<open>Lines 126 to 128: one pass of the loop body up to the convergence test.\<close>
definition fit_step :: "mat \<Rightarrow> corex \<Rightarrow> error + corex" where
  "fit_step x st =
     (case calculate_moments st x of
        Inl e \<Rightarrow> Inl e
      | Inr mo \<Rightarrow>
          (let st1 = st\<lparr>moments := Some mo\<rparr>
           in case tc st1 of
                Inl e \<Rightarrow> Inl e
              | Inr t \<Rightarrow> update_ws (st1\<lparr>tc_history := tc_history st1 @ [t]\<rparr>)))"

text \<open>\<open>np.abs(self.tc_history[-1] - self.tc_history[-2]) < self.tol\<close>\<close>
definition converged :: "corex \<Rightarrow> error + bool" where
  "converged st =
     (let h = tc_history st
      in if length h < 2 then Inl IndexError
         else Inr (\<bar>h ! (length h - 1) - h ! (length h - 2)\<bar> < tol st))"

text \<open>
  The \<open>for\<close> loop over \<open>range(self.max_iter)\<close>: the list holds the values of \<open>i_loop\<close> still
  to come, the last argument the value \<open>i_loop\<close> has (\<open>None\<close> before the first pass).
\<close>
fun fit_loop :: "mat \<Rightarrow> nat list \<Rightarrow> corex \<Rightarrow> nat option \<Rightarrow> error + (corex \<times> nat option)" where
  "fit_loop x [] st i_loop = Inr (st, i_loop)"
| "fit_loop x (i # rest) st i_loop =
     (case fit_step x st of
        Inl e \<Rightarrow> Inl e
      | Inr st' \<Rightarrow>
          (case converged st' of
             Inl e \<Rightarrow> Inl e
           | Inr True \<Rightarrow> Inr (st', Some i)
           | Inr False \<Rightarrow> fit_loop x rest st' (Some i)))"

text \<open>Lines 140 to 144.\<close>
definition fit_finish :: "mat \<Rightarrow> corex \<Rightarrow> nat option \<Rightarrow> error + corex" where
  "fit_finish x st i_loop =
     (case tcs st of
        Inl e \<Rightarrow> Inl e
      | Inr t \<Rightarrow>
          (let order = argsort (map uminus t);
               st1 = st\<lparr>ws := map (\<lambda>j. ws st ! j) order\<rparr>
           in case calculate_moments st1 x of
                Inl e \<Rightarrow> Inl e
              | Inr mo \<Rightarrow>
                  (case i_loop of
                     None \<Rightarrow> Inl UnboundLocalError
                   | Some i \<Rightarrow> Inr (st1\<lparr>moments := Some mo, n_loops := Some i\<rparr>))))"

definition fit :: "library \<Rightarrow> corex \<Rightarrow> mat \<Rightarrow> error + corex" where
  "fit L st x0 =
     (case fit_prepare L st x0 of
        Inl e \<Rightarrow> Inl e
      | Inr (st1, x) \<Rightarrow>
          (case fit_loop x [0..<max_iter st1] st1 None of
             Inl e \<Rightarrow> Inl e
           | Inr (st2, i_loop) \<Rightarrow> fit_finish x st2 i_loop))"

subsection \<open>\<open>transform\<close> and \<open>predict\<close>\<close>

text \<open>
  \<open>transform\<close> assigns no attribute of \<open>self\<close>, so it returns no instance. Its argument is
  a float array of the caller; the second component of the result is that array as the
  call leaves it: with \<open>copy\<close> off, \<open>np.array\<close> hands the caller's array on and
  \<open>x -= self.mean_x\<close> changes it in place, while \<open>gaussianize\<close> builds a new array.
\<close>
definition transform ::
  "library \<Rightarrow> corex \<Rightarrow> mat \<Rightarrow> bool \<Rightarrow> error + ((mat \<times> moments option) \<times> mat)" where
  "transform L st x0 details =
     (if nv st \<noteq> ncols x0 then Inl AssertionError
      else case (if gaussianize_marginals st then Inr (gaussianize L x0, x0)
                 else (case mean_x st of
                         None \<Rightarrow> Inl TypeError
                       | Some mu \<Rightarrow>
                           Inr (sub_rows x0 mu, if copy st then x0 else sub_rows x0 mu))) of
             Inl e \<Rightarrow> Inl e
           | Inr (x, caller) \<Rightarrow>
               (if details
                then (case calculate_moments st x of
                        Inl e \<Rightarrow> Inl e
                      | Inr mo \<Rightarrow> Inr ((dot x (arrT (ws st)), Some mo), caller))
                else Inr ((dot x (arrT (ws st)), None), caller)))"



subsection \<open>Vocabulary of the statements\<close>











text \<open>The variance \<open>_calculate_moments\<close> stores: the cached one if there is one.\<close>
definition var_used :: "corex \<Rightarrow> mat \<Rightarrow> vec" where
  "var_used st x = (case moments st of Some mo \<Rightarrow> Xi2 mo | None \<Rightarrow> variance x (length x))"



text \<open>
  A library whose draw for one factor and one variable is \<open>[[1]]\<close>, with the
  eigendecomposition of \<open>[[1]]\<close>. The quantile function is left open: runs without
  gaussianization never call it.
\<close>
definition draw_one :: library where
  "draw_one = \<lparr>randn = (\<lambda>r c. [[1]]), eigh = (\<lambda>A. ([1], [[1]])), norm_ppf = undefined\<rparr>"

text \<open>The instance that \<open>fit\<close> returns on the two samples \<open>3\<close> and \<open>1\<close> of one variable.\<close>
definition fitted_3_1 :: "bool \<Rightarrow> corex" where
  "fitted_3_1 cp =
     \<lparr>n_hidden = 1, max_iter = 1, noise = 1, tol = 1 / 100000, gaussianize_marginals = False,
      verbose = False, copy = cp, nv = 1, ws = [[1]], additive = False, lam = Arr [0],
      moments = Some \<lparr>Xi2 = [1], XiYj = [[1]], cy = [[2]], XiZj = [[1 / 2]],
                      Xi2_given_Y = [1 / 2], Yj2 = [2]\<rparr>,
      mean_x = Some [2], tc_history = [0, 0], n_samples = 2, n_loops = Some 0\<rparr>"

text \<open>Two calls of \<open>transform\<close> on one array of the caller, the second on what the first left.\<close>
definition transform_twice ::
  "library \<Rightarrow> corex \<Rightarrow> mat \<Rightarrow> bool \<Rightarrow> error + ((mat \<times> moments option) \<times> (mat \<times> moments option))" where
  "transform_twice L st x details =
     (case transform L st x details of
        Inl e \<Rightarrow> Inl e
      | Inr (r1, x1) \<Rightarrow>
          (case transform L st x1 details of
             Inl e \<Rightarrow> Inl e
           | Inr (r2, x2) \<Rightarrow> Inr (r1, r2)))"









text \<open>The instances at the head of the loop: the one the loop starts from, and the one after
  each further pass of the loop body.\<close>
inductive loop_state :: "mat \<Rightarrow> corex \<Rightarrow> corex \<Rightarrow> bool" for x :: mat and st0 :: corex where
  loop_start: "loop_state x st0 st0"
| loop_pass: "loop_state x st0 st \<Longrightarrow> fit_step x st = Inr st' \<Longrightarrow> loop_state x st0 st'"

text \<open>
  The instances a call of \<open>fit\<close> goes through, as far as the multipliers are concerned (no
  other statement of \<open>fit\<close> assigns \<open>self.lam\<close>): the instance it is called on, the
  instances at the head of the loop, and the instance it returns.
\<close>
inductive fit_point :: "library \<Rightarrow> corex \<Rightarrow> mat \<Rightarrow> corex \<Rightarrow> bool"
  for L :: library and st :: corex and x0 :: mat where
  at_call: "fit_point L st x0 st"
| in_loop: "fit_prepare L st x0 = Inr (st0, x) \<Longrightarrow> loop_state x st0 st1 \<Longrightarrow> fit_point L st x0 st1"
| at_return: "fit L st x0 = Inr st' \<Longrightarrow> fit_point L st x0 st'"







text \<open>
  A run in which the final order comes out wrong. Four samples of three variables with
  unit variances: the first variable is uncorrelated with the other two, which have
  correlation \<open>12/13\<close>. The draw for two factors has orthonormal rows, so its symmetric
  decorrelation is the draw itself (\<open>eigh\<close> of the identity).
\<close>
definition blocks_data :: mat where
  "blocks_data = [[1, 1, 17 / 13], [- 1, 1, 7 / 13], [1, - 1, - (17 / 13)], [- 1, - 1, - (7 / 13)]]"

definition draw_two :: library where
  "draw_two = \<lparr>randn = (\<lambda>r c. [[1, 0, 0], [0, - (4 / 5), 3 / 5]]),
               eigh = (\<lambda>A. ([1, 1], [[1, 0], [0, 1]])), norm_ppf = undefined\<rparr>"

definition blocks_config :: corex where
  "blocks_config = corex_init 2 1 1 (1 / 100000) 0 False False False True"

definition blocks_start :: corex where
  "blocks_start = blocks_config\<lparr>n_samples := 4, nv := 3, mean_x := Some [0, 0, 0],
      ws := [[1, 0, 0], [0, - (4 / 5), 3 / 5]], lam := Arr [0, 0, 0]\<rparr>"

definition blocks_moments0 :: moments where
  "blocks_moments0 = \<lparr>Xi2 = [1, 1, 1], XiYj = [[1, 0], [0, - (16 / 65)], [0, - (9 / 65)]],
      cy = [[2, 0], [0, 362 / 325]], XiZj = [[1 / 2, 0], [0, - (40 / 181)], [0, - (45 / 362)]],
      Xi2_given_Y = [1 / 2, 2225 / 2353, 4625 / 4706], Yj2 = [2, 362 / 325]\<rparr>"

definition blocks_moments1 :: moments where
  "blocks_moments1 = \<lparr>Xi2 = [1, 1, 1],
      XiYj = [[1, 0], [0, - (319258 / 1070225)], [0, - (257217 / 1070225)]],
      cy = [[2, 0], [0, 96677284478 / 88106273125]],
      XiZj = [[1 / 2, 0], [0, - (13141457425 / 48338642239)], [0, - (21175389525 / 96677284478)]],
      Xi2_given_Y = [1 / 2, 577439513825 / 628402349107, 1190644113125 / 1256804698214],
      Yj2 = [2, 96677284478 / 88106273125]\<rparr>"

text \<open>The total correlation appended to the trace in the only pass of the loop.\<close>
definition blocks_tc0 :: real where
  "blocks_tc0 = - (ln (1 / 2) / 2) - ln 2 / 2 +
     (- (ln (1 - (16 / 65)\<^sup>2 * 325 / 362) / 2) - ln (1 - (9 / 65)\<^sup>2 * 325 / 362) / 2
      - ln (362 / 325) / 2)"

text \<open>The per-factor total correlations at the moments of the loop and at the returned ones.\<close>
definition blocks_tcs_loop :: vec where
  "blocks_tcs_loop =
     [- (ln (1 / 2) / 2) - ln 2 / 2,
      - (ln (1 - (16 / 65)\<^sup>2 * 325 / 362) / 2) - ln (1 - (9 / 65)\<^sup>2 * 325 / 362) / 2
      - ln (362 / 325) / 2]"

definition blocks_tcs_returned :: vec where
  "blocks_tcs_returned =
     [- (ln (1 / 2) / 2) - ln 2 / 2,
      - (ln (1 - (319258 / 1070225)\<^sup>2 * 88106273125 / 96677284478) / 2)
      - ln (1 - (257217 / 1070225)\<^sup>2 * 88106273125 / 96677284478) / 2
      - ln (96677284478 / 88106273125) / 2]"

definition blocks_fitted :: corex where
  "blocks_fitted = blocks_start\<lparr>ws := [[1, 0, 0], [0, - (46 / 89), 219 / 925]],
      moments := Some blocks_moments1, tc_history := [0, blocks_tc0], n_loops := Some 0\<rparr>"

section \<open>Shapes and entries of the array operations\<close>

lemma has_shape_nth: "has_shape r c A \<Longrightarrow> i < r \<Longrightarrow> length (A ! i) = c"
  by (simp add: has_shape_def list_all_length)

lemma has_shapeI: "length A = r \<Longrightarrow> (\<And>i. i < r \<Longrightarrow> length (A ! i) = c) \<Longrightarrow> has_shape r c A"
  by (simp add: has_shape_def list_all_length)


lemma ncols_shape: "has_shape r c A \<Longrightarrow> 0 < r \<Longrightarrow> ncols A = c"
  by (cases A) (auto simp: has_shape_def ncols_def)

lemma length_col [simp]: "length (col A j) = length A"
  by (simp add: col_def)

lemma col_nth: "i < length A \<Longrightarrow> col A j ! i = A ! i ! j"
  by (simp add: col_def)

lemma col_Cons [simp]: "col (v # A) j = v ! j # col A j"
  by (simp add: col_def)

lemma col_Nil [simp]: "col [] j = []"
  by (simp add: col_def)



lemma dotv_sum: "length u = length v \<Longrightarrow> dotv u v = (\<Sum>k<length u. u ! k * v ! k)"
proof -
  assume len: "length u = length v"
  have "dotv u v = (\<Sum>k = 0..<length (map2 (*) u v). map2 (*) u v ! k)"
    unfolding dotv_def by (rule sum_list_sum_nth)
  also have "\<dots> = (\<Sum>k = 0..<length u. u ! k * v ! k)"
    using len by (intro sum.cong) auto
  finally show ?thesis by (simp add: lessThan_atLeast0)
qed

lemma dotv_Cons [simp]: "dotv (a # u) (b # v) = a * b + dotv u v"
  by (simp add: dotv_def)

lemma dotv_Nil [simp]: "dotv [] v = 0" "dotv u [] = 0"
  by (simp_all add: dotv_def)



section \<open>The linear solver\<close>









lemma has_shape_Nil [simp]: "has_shape 0 c []"
  by (simp add: has_shape_def)















lemma sub_rows_nth:
  "has_shape r c A \<Longrightarrow> length v = c \<Longrightarrow> i < r \<Longrightarrow> j < c \<Longrightarrow> sub_rows A v ! i ! j = A ! i ! j - v ! j"
  by (auto simp: has_shape_def list_all_length sub_rows_def)





lemma length_diag [simp]: "length (diag A) = length A"
  by (simp add: diag_def)




lemma length_one_minus [simp]: "length (one_minus v) = length v"
  by (simp add: one_minus_def)



lemma einsum_li_li_i_length: "has_shape r c A \<Longrightarrow> 0 < r \<Longrightarrow> length (einsum_li_li_i A B) = c"
  using ncols_shape[of r c A] by (simp add: einsum_li_li_i_def)

lemma einsum_li_li_i_nth:
  assumes "has_shape r c A" "has_shape r c B" "0 < r" "i < c"
  shows "einsum_li_li_i A B ! i = (\<Sum>l<r. A ! l ! i * B ! l ! i)"
proof -
  have lA: "length A = r" and lB: "length B = r" using assms by (simp_all add: has_shape_def)
  have "einsum_li_li_i A B ! i = dotv (col A i) (col B i)"
    using assms ncols_shape[of r c A] by (simp add: einsum_li_li_i_def)
  also have "\<dots> = (\<Sum>l<r. col A i ! l * col B i ! l)"
    using lA lB by (simp add: dotv_sum)
  also have "\<dots> = (\<Sum>l<r. A ! l ! i * B ! l ! i)"
    using lA lB by (intro sum.cong) (simp_all add: col_nth)
  finally show ?thesis .
qed




lemma einsum_ji_ij_i_nth:
  assumes "has_shape r c A" "has_shape c r B" "i < c"
  shows "einsum_ji_ij_i A B ! i = (\<Sum>j<r. A ! j ! i * B ! i ! j)"
proof -
  have lA: "length A = r" and lB: "length B = c" using assms by (simp_all add: has_shape_def)
  have "einsum_ji_ij_i A B ! i = dotv (col A i) (B ! i)"
    using assms lB by (simp add: einsum_ji_ij_i_def)
  also have "\<dots> = (\<Sum>j<r. col A i ! j * B ! i ! j)"
    using assms lA by (simp add: dotv_sum has_shape_nth)
  also have "\<dots> = (\<Sum>j<r. A ! j ! i * B ! i ! j)"
    using lA by (intro sum.cong) (simp_all add: col_nth)
  finally show ?thesis .
qed




lemma variance_nth:
  "has_shape r c x \<Longrightarrow> 0 < r \<Longrightarrow> i < c \<Longrightarrow> variance x n ! i = (\<Sum>l<r. x ! l ! i * x ! l ! i) / real n"
  by (simp add: variance_def einsum_li_li_i_length einsum_li_li_i_nth)





section \<open>The moment estimator\<close>













lemma calculate_moments_Inr:
  "calculate_moments st x = Inr b \<longleftrightarrow>
     (\<exists>Z. solve (latent_cov st x) (arrT (cross_moment st x)) = Inr Z \<and>
          b = \<lparr>Xi2 = var_used st x, XiYj = cross_moment st x, cy = latent_cov st x, XiZj = arrT Z,
               Xi2_given_Y = map2 (-) (var_used st x) (einsum_ij_ij_i (arrT Z) (cross_moment st x)),
               Yj2 = diag (latent_cov st x)\<rparr>)"
  by (auto simp: calculate_moments_def var_used_def Let_def split: sum.splits)




lemmas np_defs = dot_def arrT_def col_def ncols_def dotv_def eye_def diag_def fill_diagonal_def
  scal_def madd_def msub_def mdiv_def msq_def rows_times_def rows_div_def outer_newaxis_def
  einsum_li_li_i_def einsum_ij_ij_i_def einsum_ji_ij_i_def einsum_ir_i_is_i_rs_def one_minus_def
  sub_rows_def variance_def solve_def eliminate_def back_subst_def cross_moment_def latent_cov_def

section \<open>Claims about the moment estimator\<close>






lemmas fit_defs = fit_def fit_prepare_def fit_step_def fit_finish_def converged_def
  calculate_moments_def update_ws_def Q_of_def R_of_def H_of_def lam_additive_def additivity_def
  tc_def tcs_def calculate_mi_def sym_decorrelation_def lam_times_ones_def argsort_def

lemma fit_3_1:
  "fit draw_one (corex_init 1 1 1 (1 / 100000) 0 False False False cp) [[3], [1]] = Inr (fitted_3_1 cp)"
  by (simp add: fit_defs corex_init_def draw_one_def np_defs Let_def fitted_3_1_def ln_div)


section \<open>Claims about \<open>transform\<close> and \<open>predict\<close>\<close>

lemma fit_moments_nonempty: "fit L st x = Inr st' \<Longrightarrow> moments st' \<noteq> None"
  by (auto simp: fit_def fit_finish_def Let_def split: sum.splits option.splits prod.splits)

lemma transform_reuses_cache:
  assumes "moments st = Some mo" and "transform L st x True = Inr ((y, Some b), c)"
  shows "Xi2 b = Xi2 mo"
  using assms
  by (auto simp: transform_def calculate_moments_Inr var_used_def split: if_splits sum.splits option.splits)



text \<open>
  C9, as amended. When the instance copies its input, or gaussianizes it, \<open>transform\<close>
  leaves the caller's array as it was, and a second call on the same array returns what
  the first returned. (\<open>transform\<close> never changes the instance.)
\<close>
theorem transform_twice_same:
  assumes "copy st \<or> gaussianize_marginals st" and "transform L st x details = Inr (r, x')"
  shows "x' = x \<and> transform_twice L st x details = Inr (r, r)"
proof -
  have "x' = x"
    using assms by (auto simp: transform_def split: if_splits sum.splits option.splits)
  with assms(2) show ?thesis by (simp add: transform_twice_def)
qed

theorem transform_twice_same_witness:
  "copy (fitted_3_1 True) \<and>
   transform draw_one (fitted_3_1 True) [[5]] False = Inr (([[3]], None), [[5]]) \<and>
   transform_twice draw_one (fitted_3_1 True) [[5]] False = Inr (([[3]], None), ([[3]], None))"
proof -
  have c: "copy (fitted_3_1 True) \<or> gaussianize_marginals (fitted_3_1 True)"
    by (simp add: fitted_3_1_def)
  have t: "transform draw_one (fitted_3_1 True) [[5]] False = Inr (([[3]], None), [[5]])"
    by (simp add: transform_def fitted_3_1_def np_defs)
  from transform_twice_same[OF c t] c t show ?thesis by (simp add: fitted_3_1_def)
qed

text \<open>
  C9 as stated fails when \<open>copy\<close> is off: the model fitted on the samples \<open>3\<close> and \<open>1\<close>
  stores the mean \<open>2\<close>; the first call on the caller's array \<open>[[5]]\<close> returns \<open>[[3]]\<close> and
  leaves \<open>[[3]]\<close> in the array, the second call returns \<open>[[1]]\<close>.
\<close>
theorem transform_twice_counterexample:
  "fit draw_one (corex_init 1 1 1 (1 / 100000) 0 False False False False) [[3], [1]]
     = Inr (fitted_3_1 False) \<and>
   transform draw_one (fitted_3_1 False) [[5]] False = Inr (([[3]], None), [[3]]) \<and>
   transform_twice draw_one (fitted_3_1 False) [[5]] False = Inr (([[3]], None), ([[1]], None))"
proof -
  have "transform draw_one (fitted_3_1 False) [[5]] False = Inr (([[3]], None), [[3]])"
    by (simp add: transform_def fitted_3_1_def np_defs)
  moreover have "transform draw_one (fitted_3_1 False) [[3]] False = Inr (([[1]], None), [[1]])"
    by (simp add: transform_def fitted_3_1_def np_defs)
  ultimately show ?thesis using fit_3_1[of False] by (simp add: transform_twice_def)
qed

text \<open>
  C4. The code does not do what the claim says: the model fitted on the samples \<open>3\<close> and
  \<open>1\<close> (variance \<open>1\<close>) is asked for the details of the new samples \<open>6\<close> and \<open>-2\<close>, whose
  centered variance is \<open>16\<close>; the bundle it returns carries the cached variance \<open>1\<close>, and
  with it a negative residual variance.
\<close>
theorem transform_details_cached_variance:
  "fit draw_one (corex_init 1 1 1 (1 / 100000) 0 False False False True) [[3], [1]]
     = Inr (fitted_3_1 True) \<and>
   variance (sub_rows [[6], [- 2]] [2]) 2 = [16] \<and>
   transform draw_one (fitted_3_1 True) [[6], [- 2]] True =
     Inr (([[4], [- 4]],
           Some \<lparr>Xi2 = [1], XiYj = [[16]], cy = [[17]], XiZj = [[16 / 17]],
                 Xi2_given_Y = [- (239 / 17)], Yj2 = [17]\<rparr>), [[6], [- 2]])"
proof -
  have "variance (sub_rows [[6], [- 2]] [2]) 2 = [16]"
    by (simp add: np_defs)
  moreover have "transform draw_one (fitted_3_1 True) [[6], [- 2]] True =
     Inr (([[4], [- 4]],
           Some \<lparr>Xi2 = [1], XiYj = [[16]], cy = [[17]], XiZj = [[16 / 17]],
                 Xi2_given_Y = [- (239 / 17)], Yj2 = [17]\<rparr>), [[6], [- 2]])"
    by (simp add: transform_def calculate_moments_def fitted_3_1_def np_defs Let_def)
  ultimately show ?thesis using fit_3_1[of True] by simp
qed

text \<open>
  C5. The code does not do what the claim says: \<open>transform\<close> ranks the new data among
  themselves. Whatever the instance holds from fitting, a single new sample of one variable
  is sent to the median quantile, whatever its value.
\<close>
theorem transform_gaussianizes_new_data_alone:
  "transform L (st\<lparr>gaussianize_marginals := True, nv := 1, ws := [[w]]\<rparr>) [[a]] False =
     Inr (([[norm_ppf L (1 / 2) * w]], None), [[a]])"
  by (simp add: transform_def gaussianize_def rankdata_def np_defs)

section \<open>The weight updater\<close>













text \<open>With additivity enforcement on, the update never reads the incoming multipliers.\<close>
lemma update_ws_additive_ignores_lam:
  assumes "additive st" "update_ws (st\<lparr>lam := l1\<rparr>) = Inr st1" "update_ws (st\<lparr>lam := l2\<rparr>) = Inr st2"
  shows "ws st1 = ws st2 \<and> lam st1 = lam st2"
proof -
  have a: "additivity (st\<lparr>lam := l1\<rparr>) = additivity (st\<lparr>lam := l2\<rparr>)"
    by (simp add: additivity_def)
  have "lam_additive (st\<lparr>lam := l1\<rparr>) mo = lam_additive (st\<lparr>lam := l2\<rparr>) mo" for mo
    by (simp add: lam_additive_def a)
  then show ?thesis
    using assms
    by (auto simp: update_ws_def Let_def split: option.splits sum.splits lamval.splits)
qed





section \<open>The fit loop\<close>





lemma update_ws_fields:
  assumes "update_ws st = Inr st'"
  shows "n_hidden st' = n_hidden st" "noise st' = noise st" "tol st' = tol st"
    "moments st' = moments st" "tc_history st' = tc_history st" "max_iter st' = max_iter st"
    "mean_x st' = mean_x st" "additive st' = additive st"
  using assms
  by (auto simp: update_ws_def Let_def split: option.splits sum.splits if_splits lamval.splits)















section \<open>\<open>fit\<close> as a whole\<close>












lemma blocks_prepare: "fit_prepare draw_two blocks_config blocks_data = Inr (blocks_start, blocks_data)"
  by (simp add: fit_prepare_def blocks_config_def blocks_start_def blocks_data_def draw_two_def
      corex_init_def sym_decorrelation_def lam_times_ones_def np_defs Let_def)

lemma blocks_cm0: "calculate_moments blocks_start blocks_data = Inr blocks_moments0"
  by (simp add: calculate_moments_def blocks_config_def blocks_start_def blocks_data_def
      blocks_moments0_def corex_init_def np_defs Let_def numeral_2_eq_2)

lemmas blocks_defs = blocks_config_def blocks_start_def blocks_data_def blocks_moments0_def
  blocks_moments1_def corex_init_def

lemma blocks_tc: "tc (blocks_start\<lparr>moments := Some blocks_moments0\<rparr>) = Inr blocks_tc0"
  by (simp add: tc_def tcs_def calculate_mi_def blocks_defs blocks_tc0_def np_defs Let_def)

lemma blocks_update:
  "update_ws (blocks_start\<lparr>moments := Some blocks_moments0, tc_history := h\<rparr>) =
     Inr (blocks_start\<lparr>moments := Some blocks_moments0, tc_history := h,
            ws := [[1, 0, 0], [0, - (46 / 89), 219 / 925]]\<rparr>)"
  by (simp add: update_ws_def Q_of_def R_of_def H_of_def blocks_defs np_defs Let_def)

lemma blocks_step:
  "fit_step blocks_data blocks_start =
     Inr (blocks_start\<lparr>moments := Some blocks_moments0, tc_history := [0, blocks_tc0],
            ws := [[1, 0, 0], [0, - (46 / 89), 219 / 925]]\<rparr>)"
proof -
  have "tc_history blocks_start = [0]" by (simp add: blocks_defs)
  then show ?thesis
    by (simp add: fit_step_def blocks_cm0 blocks_tc Let_def blocks_update)
qed

lemma blocks_loop:
  "fit_loop blocks_data [0..<max_iter blocks_start] blocks_start None =
     Inr (blocks_start\<lparr>moments := Some blocks_moments0, tc_history := [0, blocks_tc0],
            ws := [[1, 0, 0], [0, - (46 / 89), 219 / 925]]\<rparr>, Some 0)"
proof -
  have "[0..<max_iter blocks_start] = [0]" by (simp add: blocks_defs)
  then show ?thesis
    by (auto simp: blocks_step converged_def Let_def split: sum.splits bool.splits)
qed

lemma blocks_cm1:
  "calculate_moments (blocks_start\<lparr>moments := Some blocks_moments0, tc_history := h,
            ws := [[1, 0, 0], [0, - (46 / 89), 219 / 925]]\<rparr>) blocks_data = Inr blocks_moments1"
  by (simp add: calculate_moments_def blocks_defs np_defs Let_def numeral_2_eq_2)

lemma ln_half: "- (ln (1 / 2) / 2) - ln 2 / 2 = (0::real)"
  by (simp add: ln_div)

lemma three_logs:
  assumes "0 < (a::real)" "0 < b" "0 < y"
  shows "- (ln a / 2) - ln b / 2 - ln y / 2 = - (ln (a * b * y) / 2)"
  using assms by (simp add: ln_mult add_divide_distrib)

lemma three_logs_neg:
  assumes "0 < (a::real)" "0 < b" "0 < y" "1 < a * b * y"
  shows "- (ln a / 2) - ln b / 2 - ln y / 2 < (0::real)"
proof -
  have "0 < ln (a * b * y)" using assms(4) by simp
  then show ?thesis unfolding three_logs[OF assms(1-3)] by simp
qed

lemma three_logs_pos:
  assumes "0 < (a::real)" "0 < b" "0 < y" "a * b * y < 1"
  shows "(0::real) < - (ln a / 2) - ln b / 2 - ln y / 2"
proof -
  have "0 < a * b * y" using assms by simp
  then have "ln (a * b * y) < 0" using assms(4) by simp
  then show ?thesis unfolding three_logs[OF assms(1-3)] by simp
qed

lemma blocks_tcs_loop_order: "blocks_tcs_loop ! 1 < blocks_tcs_loop ! 0"
proof -
  have "- (ln (1 - (16 / 65)\<^sup>2 * 325 / 362) / 2) - ln (1 - (9 / 65)\<^sup>2 * 325 / 362) / 2
      - ln (362 / 325) / 2 < (0::real)"
    by (rule three_logs_neg) (simp_all add: power2_eq_square)
  then show ?thesis by (simp add: blocks_tcs_loop_def ln_half)
qed

lemma blocks_tcs_returned_order: "blocks_tcs_returned ! 0 < blocks_tcs_returned ! 1"
proof -
  have "(0::real) < - (ln (1 - (319258 / 1070225)\<^sup>2 * 88106273125 / 96677284478) / 2)
      - ln (1 - (257217 / 1070225)\<^sup>2 * 88106273125 / 96677284478) / 2
      - ln (96677284478 / 88106273125) / 2"
    by (rule three_logs_pos) (simp_all add: power2_eq_square)
  then show ?thesis by (simp add: blocks_tcs_returned_def ln_half)
qed

lemma tcs_at_loop_moments:
  "tcs (blocks_start\<lparr>moments := Some blocks_moments0, tc_history := h,
            ws := W\<rparr>) = Inr blocks_tcs_loop"
  by (simp add: tcs_def calculate_mi_def blocks_defs blocks_tcs_loop_def np_defs Let_def)

lemma tcs_at_returned_moments: "tcs blocks_fitted = Inr blocks_tcs_returned"
  by (simp add: tcs_def calculate_mi_def blocks_defs blocks_fitted_def blocks_tcs_returned_def
      np_defs Let_def)

lemma argsort_two: "b \<le> a \<Longrightarrow> argsort (map uminus [a, b]) = [0, 1]"
  by (simp add: argsort_def)

lemma blocks_order: "argsort (map uminus blocks_tcs_loop) = [0, 1]"
proof -
  have "blocks_tcs_loop = [blocks_tcs_loop ! 0, blocks_tcs_loop ! 1]"
    by (simp add: blocks_tcs_loop_def)
  moreover have "blocks_tcs_loop ! 1 \<le> blocks_tcs_loop ! 0"
    using blocks_tcs_loop_order by simp
  ultimately show ?thesis using argsort_two by metis
qed

lemma blocks_finish:
  "fit_finish blocks_data
     (blocks_start\<lparr>moments := Some blocks_moments0, tc_history := [0, blocks_tc0],
            ws := [[1, 0, 0], [0, - (46 / 89), 219 / 925]]\<rparr>) (Some 0) = Inr blocks_fitted"
  by (simp add: fit_finish_def tcs_at_loop_moments blocks_order Let_def blocks_cm1 blocks_fitted_def)

lemma blocks_fit: "fit draw_two blocks_config blocks_data = Inr blocks_fitted"
  by (simp add: fit_def blocks_prepare blocks_loop blocks_finish)

text \<open>
  C3. The code does not do what the claim says. \<open>fit\<close> takes the order from
  \<open>self.tcs\<close> while \<open>self.moments\<close> still belongs to the weights before the last update,
  and applies it to the updated weights. On this input the loop's moments give the
  contributions \<open>0\<close> and about \<open>-0.017\<close>, so the rows stay as they are; at the moments returned
  with the model the contributions are \<open>0\<close> and about \<open>0.023\<close>: ascending, not descending.
\<close>
theorem fit_order_from_stale_moments:
  "fit draw_two blocks_config blocks_data = Inr blocks_fitted \<and>
   ws blocks_fitted = [[1, 0, 0], [0, - (46 / 89), 219 / 925]] \<and>
   calculate_moments blocks_fitted blocks_data = Inr blocks_moments1 \<and>
   moments blocks_fitted = Some blocks_moments1 \<and>
   tcs blocks_fitted = Inr blocks_tcs_returned \<and>
   blocks_tcs_returned ! 0 < blocks_tcs_returned ! 1"
proof -
  have "calculate_moments blocks_fitted blocks_data = Inr blocks_moments1"
    by (simp add: calculate_moments_def blocks_defs blocks_fitted_def np_defs Let_def numeral_2_eq_2)
  moreover have "ws blocks_fitted = [[1, 0, 0], [0, - (46 / 89), 219 / 925]]"
    "moments blocks_fitted = Some blocks_moments1"
    by (simp_all add: blocks_fitted_def)
  ultimately show ?thesis
    using blocks_fit tcs_at_returned_moments blocks_tcs_returned_order by (intro conjI)
qed

end
